theory Spec2Isabelle
  imports Main "HOL-Library.Word"
begin

unbundle bit_operations_syntax

section \<open>Data model\<close>

text \<open>
  The program is a command-line wrapper around the external \<open>age\<close> binary. Go strings are
  byte strings and are modelled as \<^typ>\<open>string\<close>. An \<open>error\<close> value of Go is modelled by
  the datatype \<open>error\<close>: \<open>Errorf f args\<close> is \<open>fmt.Errorf(f, args...)\<close> kept as the format
  string and its arguments, \<open>Wrapf f e\<close> is \<open>fmt.Errorf(f, e)\<close> with the verb \<open>%w\<close>, and
  \<open>ExternalError\<close> is an error produced outside the program (operating system, external
  process, network, YAML library). A \<open>nil\<close> error is \<^const>\<open>None\<close>.
\<close>

datatype fmtarg = Str string | Strs "string list" | Num int | Octal "32 word"

datatype error = Errorf string "fmtarg list" | Wrapf string error | ExternalError string

text \<open>The struct \<open>Config\<close> of \<open>cmd/config_shared.go\<close>.\<close>

record Config =
  SSHKeyPath :: string
  GitHubUser :: string
  DefaultRecipients :: "string list"
  CacheTTLMinutes :: int
  LogFilePath :: string

text \<open>What the program reads of a directory entry, of a file's \<open>os.FileInfo\<close> and of an HTTP response.\<close>

record dirEntry =
  Name :: string
  IsDir :: bool

record fileInfo =
  Mode :: "32 word"

record response =
  StatusCode :: int
  ReadAllBody :: "error + string"
  CloseBody :: "error option"

text \<open>
  The world outside the program is a parameter: each field answers one call of the
  standard library or of an external process. The program is sequential, so the answers
  are functions of the call's arguments.
\<close>

record os_env =
  exec_age :: "string list \<Rightarrow> error option"
  Getenv :: "string \<Rightarrow> string"
  ReadDir :: "string \<Rightarrow> error + dirEntry list"
  Stat :: "string \<Rightarrow> error + fileInfo"
  filepath_Join :: "string list \<Rightarrow> string"
  filepath_Abs :: "string \<Rightarrow> error + string"
  UserConfigDir :: "error + string"
  ReadFile :: "string \<Rightarrow> error + string"
  WriteFile_result :: "string \<Rightarrow> string \<Rightarrow> 32 word \<Rightarrow> error option"
  MkdirAll_result :: "string \<Rightarrow> 32 word \<Rightarrow> error option"
  yaml_Marshal :: "Config \<Rightarrow> error + string"
  yaml_Unmarshal :: "string \<Rightarrow> error + Config"
  http_Get :: "string \<Rightarrow> error + response"
  TrimSpace :: "string \<Rightarrow> string"

text \<open>
  The effects of the program are recorded, in the order they happen, as a trace of events:
  a log entry (level, fields, attached error, format and arguments), a run of an external
  binary with its arguments, a file write, a directory creation, an HTTP request.
\<close>

datatype level = InfoLevel | WarnLevel | ErrorLevel

datatype event =
    Log level "(string \<times> string) list" "error option" string "fmtarg list"
  | Exec string "string list"
  | WriteFile string string "32 word"
  | MkdirAll string "32 word"
  | HttpGet string

type_synonym trace = "event list"

section \<open>Strings\<close>

text \<open>\<open>strings.HasPrefix\<close> and \<open>strings.HasSuffix\<close>, as the Go library defines them.\<close>

definition HasPrefix :: "string \<Rightarrow> string \<Rightarrow> bool" where
  "HasPrefix s p = (length s \<ge> length p \<and> take (length p) s = p)"

definition HasSuffix :: "string \<Rightarrow> string \<Rightarrow> bool" where
  "HasSuffix s suf = (length s \<ge> length suf \<and> drop (length s - length suf) s = suf)"

section \<open>The decrypt command (\<open>cmd/decrypt.go\<close>)\<close>

text \<open>The map \<open>expectedFlags\<close> of \<open>tryDecrypt\<close>; a missing key reads as \<open>false\<close>.\<close>

definition decryptExpectedFlags :: "string \<Rightarrow> bool" where
  "decryptExpectedFlags arg =
     (case map_of [(''-d'', True), (''-i'', True), (''-o'', True)] arg of
        None \<Rightarrow> False | Some b \<Rightarrow> b)"

text \<open>
  The loop \<open>for i, arg := range ageArgs\<close> of \<open>tryDecrypt\<close>, from index \<open>i\<close> on the
  remaining arguments; the result is the error the loop returns, if any.
\<close>

fun decryptArgsLoop :: "nat \<Rightarrow> string list \<Rightarrow> error option" where
  "decryptArgsLoop i [] = None"
| "decryptArgsLoop i (arg # rest) =
     (if i = 0 \<or> i = 2 \<or> i = 4 then
        (if \<not> decryptExpectedFlags arg \<and> i \<noteq> 0
         then Some (Errorf ''unexpected flag in age arguments: %s'' [Str arg])
         else decryptArgsLoop (Suc i) rest)
      else if arg = []
        then Some (Errorf ''invalid argument for decryption: empty string'' [])
        else decryptArgsLoop (Suc i) rest)"

definition tryDecrypt :: "os_env \<Rightarrow> string \<Rightarrow> string \<Rightarrow> string \<Rightarrow> trace \<Rightarrow> error option \<times> trace" where
  "tryDecrypt env keyPath output input t =
     (let ageBin = ''age'' in
      if ageBin \<noteq> ''age''
      then (Some (Errorf ''invalid binary for decryption: %s'' [Str ageBin]), t)
      else
        let ageArgs = [''-d'', ''-i'', keyPath, ''-o'', output, input] in
        case decryptArgsLoop 0 ageArgs of
          Some e \<Rightarrow> (Some e, t)
        | None \<Rightarrow>
            if \<not> HasSuffix keyPath ''id_rsa'' \<and> \<not> HasSuffix keyPath ''id_ed25519''
            then (Some (Errorf ''invalid key file for decryption: %s'' [Str keyPath]), t)
            else if \<not> HasSuffix output ''.txt'' \<and> \<not> HasSuffix output ''.out''
            then (Some (Errorf ''invalid output file for decryption: %s'' [Str output]), t)
            else (exec_age env ageArgs, t @ [Exec ageBin ageArgs]))"

definition selectSSHKey :: "string \<Rightarrow> Config \<Rightarrow> string" where
  "selectSSHKey sshKeyFlag cfg = (if sshKeyFlag \<noteq> [] then sshKeyFlag else SSHKeyPath cfg)"

text \<open>
  \<open>tryAllKeys\<close>: the slice behind the pointer \<open>triedKeys\<close> is passed in and returned.
\<close>

fun tryAllKeys :: "os_env \<Rightarrow> string list \<Rightarrow> string \<Rightarrow> string \<Rightarrow> string list \<Rightarrow> trace
    \<Rightarrow> bool \<times> string list \<times> trace" where
  "tryAllKeys env [] input output triedKeys t = (False, triedKeys, t)"
| "tryAllKeys env (keyPath # keys) input output triedKeys t =
     (let triedKeys' = triedKeys @ [keyPath];
          t1 = t @ [Log InfoLevel [(''input'', input), (''output'', output), (''sshKey'', keyPath)]
                      None ''Trying decryption with SSH key'' []];
          (err, t2) = tryDecrypt env keyPath output input t1
      in case err of
           None \<Rightarrow> (True, triedKeys', t2 @ [Log InfoLevel [] None ''Decryption successful'' []])
         | Some e \<Rightarrow>
             tryAllKeys env keys input output triedKeys'
               (t2 @ [Log WarnLevel [] (Some e) ''Decryption failed with key %s'' [Str keyPath]]))"

section \<open>Configuration and key scan (\<open>cmd/config_shared.go\<close>)\<close>

text \<open>The loop of \<open>ScanSSHPrivateKeys\<close> over the directory entries; \<open>keys\<close> is the slice built so far.\<close>

fun scanEntries :: "os_env \<Rightarrow> string \<Rightarrow> dirEntry list \<Rightarrow> string list \<Rightarrow> string list" where
  "scanEntries env sshDir [] keys = keys"
| "scanEntries env sshDir (f # files) keys =
     (if IsDir f then scanEntries env sshDir files keys
      else
        let name = Name f in
        if HasPrefix name ''id_'' \<and> \<not> HasSuffix name ''.pub''
        then scanEntries env sshDir files (keys @ [filepath_Join env [sshDir, name]])
        else scanEntries env sshDir files keys)"

definition ScanSSHPrivateKeys :: "os_env \<Rightarrow> error + string list" where
  "ScanSSHPrivateKeys env =
     (let sshDir = filepath_Join env [Getenv env ''HOME'', ''.ssh''] in
      case ReadDir env sshDir of
        Inl err \<Rightarrow> Inl err
      | Inr files \<Rightarrow> Inr (scanEntries env sshDir files []))"





section \<open>The decrypt command, continued\<close>

text \<open>
  The \<open>RunE\<close> function of the command returned by \<open>Decrypt\<close>, on the values of the flags
  \<open>input\<close>, \<open>output\<close> and \<open>ssh-key\<close>. It returns the error of the command and the trace.
\<close>

definition Decrypt :: "os_env \<Rightarrow> Config \<Rightarrow> string \<Rightarrow> string \<Rightarrow> string \<Rightarrow> trace \<Rightarrow> error option \<times> trace" where
  "Decrypt env cfg input output sshKeyFlag t =
     (if input = [] then (Some (Errorf ''input file is required'' []), t)
      else if output = [] then (Some (Errorf ''output file is required'' []), t)
      else
        case Stat env input of
          Inl err \<Rightarrow> (Some (Wrapf ''input file does not exist: %w'' err), t)
        | Inr _ \<Rightarrow>
            let sshKey = selectSSHKey sshKeyFlag cfg;
                attempt =
                  (if sshKey \<noteq> [] then
                     let triedKeys = [] @ [sshKey];
                         t1 = t @ [Log InfoLevel
                                     [(''input'', input), (''output'', output), (''sshKey'', sshKey)]
                                     None ''Trying decryption with provided SSH key'' []];
                         (err, t2) = tryDecrypt env sshKey output input t1
                     in case err of
                          None \<Rightarrow> Inr (True, triedKeys, t2 @ [Log InfoLevel [] None ''Decryption successful'' []])
                        | Some e \<Rightarrow>
                            Inr (False, triedKeys,
                                 t2 @ [Log WarnLevel [] (Some e) ''Decryption failed with provided SSH key'' []])
                   else
                     case ScanSSHPrivateKeys env of
                       Inl err \<Rightarrow> Inl (Wrapf ''could not scan ~/.ssh for private keys: %w'' err)
                     | Inr keys \<Rightarrow> Inr (tryAllKeys env keys input output [] t))
            in case attempt of
                 Inl e \<Rightarrow> (Some e, t)
               | Inr (success, triedKeys, t') \<Rightarrow>
                   if \<not> success
                   then (Some (Errorf (''decryption failed: none of the tried SSH keys matched'' @ [CHR 0x0A]
                                       @ ''Tried keys: %v'') [Strs triedKeys]), t')
                   else (None, t'))"

section \<open>The encrypt command (\<open>cmd/encrypt.go\<close>)\<close>






text \<open>The map \<open>expectedFlags\<close> of \<open>buildAgeArgs\<close>.\<close>

definition encryptExpectedFlags :: "string \<Rightarrow> bool" where
  "encryptExpectedFlags arg =
     (case map_of [(''-o'', True), (''-r'', True)] arg of None \<Rightarrow> False | Some b \<Rightarrow> b)"

text \<open>The loop \<open>for _, r := range recipients\<close> that appends \<open>"-r", r\<close> to \<open>ageArgs\<close>.\<close>

fun appendRecipients :: "string list \<Rightarrow> string list \<Rightarrow> string list" where
  "appendRecipients ageArgs [] = ageArgs"
| "appendRecipients ageArgs (r # rs) = appendRecipients (ageArgs @ [''-r'', r]) rs"

text \<open>
  The validation loop of \<open>buildAgeArgs\<close> over \<open>ageArgs\<close> of length \<open>n\<close>, from index \<open>i\<close> on
  the remaining arguments. Go's \<open>int\<close> arithmetic \<open>len(ageArgs)-2\<close> is done on integers.
\<close>

fun encryptArgsLoop :: "nat \<Rightarrow> nat \<Rightarrow> string list \<Rightarrow> error option" where
  "encryptArgsLoop n i [] = None"
| "encryptArgsLoop n i (arg # rest) =
     (if i mod 2 = 0 \<and> int i < int n - 2 then
        (if \<not> encryptExpectedFlags arg
         then Some (Errorf ''unexpected flag in age arguments: %s'' [Str arg])
         else encryptArgsLoop n (Suc i) rest)
      else if arg = []
        then Some (Errorf ''invalid argument for encryption: empty string'' [])
        else encryptArgsLoop n (Suc i) rest)"

definition buildAgeArgs :: "string \<Rightarrow> string \<Rightarrow> string list \<Rightarrow> error + string list" where
  "buildAgeArgs output input recipients =
     (let ageArgs = [''-o'', output];
          ageArgs = appendRecipients ageArgs recipients;
          ageArgs = ageArgs @ [input]
      in
      case encryptArgsLoop (length ageArgs) 0 ageArgs of
        Some e \<Rightarrow> Inl e
      | None \<Rightarrow>
          if \<not> HasSuffix output ''.txt'' \<and> \<not> HasSuffix output ''.out''
          then Inl (Errorf ''invalid output file for encryption: %s'' [Str output])
          else Inr ageArgs)"

section \<open>Observations on traces, and an example environment\<close>

text \<open>
  The keys for which an attempt was logged, in the order of the trace: the field \<open>sshKey\<close>
  of each entry "Trying decryption with ..." that precedes a call of \<open>tryDecrypt\<close>.
\<close>

fun attemptLogKey :: "event \<Rightarrow> string list" where
  "attemptLogKey (Log lv kvs err msg args) =
     (if msg = ''Trying decryption with SSH key'' \<or> msg = ''Trying decryption with provided SSH key''
      then (case map_of kvs ''sshKey'' of Some k \<Rightarrow> [k] | None \<Rightarrow> [])
      else [])"
| "attemptLogKey (Exec bin args) = []"
| "attemptLogKey (WriteFile p d m) = []"
| "attemptLogKey (MkdirAll p m) = []"
| "attemptLogKey (HttpGet u) = []"

definition attemptedKeys :: "trace \<Rightarrow> string list" where
  "attemptedKeys t = concat (map attemptLogKey t)"

text \<open>Decryption with a key fails when \<open>tryDecrypt\<close> returns a non-nil error for it.\<close>

abbreviation decryptFails :: "os_env \<Rightarrow> string \<Rightarrow> string \<Rightarrow> string \<Rightarrow> bool" where
  "decryptFails env output input keyPath \<equiv> fst (tryDecrypt env keyPath output input []) \<noteq> None"

text \<open>
  An example environment for concrete runs: the home directory \<open>/home/u\<close>, an SSH directory
  with five entries, an encrypted input file, a configuration file of mode \<open>0o644\<close>, an
  \<open>age\<close> binary that exits with success on every run, and a GitHub answer of three lines.
  Paths are joined with a slash and \<open>TrimSpace\<close> removes blanks at both ends.
\<close>

fun joinSlash :: "string list \<Rightarrow> string" where
  "joinSlash [] = []"
| "joinSlash [x] = x"
| "joinSlash (x # y # ys) = x @ ''/'' @ joinSlash (y # ys)"

definition trimBlanks :: "string \<Rightarrow> string" where
  "trimBlanks s = rev (dropWhile (\<lambda>c. c = CHR '' '') (rev (dropWhile (\<lambda>c. c = CHR '' '') s)))"

definition demo_env :: os_env where
  "demo_env =
     \<lparr> exec_age = (\<lambda>args. None),
       Getenv = (\<lambda>v. if v = ''HOME'' then ''/home/u'' else []),
       ReadDir = (\<lambda>d. if d = ''/home/u/.ssh''
                    then Inr [\<lparr>Name = ''config'', IsDir = False\<rparr>,
                              \<lparr>Name = ''id_ecdsa'', IsDir = False\<rparr>,
                              \<lparr>Name = ''id_ed25519'', IsDir = False\<rparr>,
                              \<lparr>Name = ''id_ed25519.pub'', IsDir = False\<rparr>,
                              \<lparr>Name = ''id_old'', IsDir = True\<rparr>]
                    else Inl (ExternalError ''no such directory'')),
       Stat = (\<lambda>p. if p = ''secret.age'' \<or> p = ''/home/u/.config/a/config.yaml''
                 then Inr \<lparr>Mode = 0x1A4\<rparr>
                 else Inl (ExternalError ''no such file'')),
       filepath_Join = joinSlash,
       filepath_Abs = (\<lambda>p. Inr p),
       UserConfigDir = Inr ''/home/u/.config'',
       ReadFile = (\<lambda>p. Inr ''ssh_key_path: x''),
       WriteFile_result = (\<lambda>p d m. None),
       MkdirAll_result = (\<lambda>p m. None),
       yaml_Marshal = (\<lambda>cfg. Inr ''ssh_key_path: x''),
       yaml_Unmarshal = (\<lambda>d. Inl (ExternalError ''yaml'')),
       http_Get = (\<lambda>u. if u = ''https://github.com/octo-cat.keys''
                     then Inr \<lparr>StatusCode = 200,
                               ReadAllBody = Inr (''ssh-ed25519 AAAA '' @ [CHR 0x0A, CHR 0x0A] @ '' ssh-rsa BBBB''),
                               CloseBody = None\<rparr>
                     else Inl (ExternalError ''no route'')),
       TrimSpace = trimBlanks \<rparr>"

text \<open>The error of \<open>Decrypt\<close> when no key succeeded; its argument for \<open>%v\<close> is the slice \<open>triedKeys\<close>.\<close>

definition triedKeysError :: "string list \<Rightarrow> error" where
  "triedKeysError triedKeys =
     Errorf (''decryption failed: none of the tried SSH keys matched'' @ [CHR 0x0A] @ ''Tried keys: %v'')
       [Strs triedKeys]"

text \<open>An example configuration.\<close>

definition demo_cfg :: Config where
  "demo_cfg = \<lparr> SSHKeyPath = ''/home/u/.ssh/id_rsa'', GitHubUser = ''octo-cat'',
                DefaultRecipients = [''/home/u/.ssh/id_rsa.pub''], CacheTTLMinutes = 120,
                LogFilePath = ''/home/u/.state/a/cli.log'' \<rparr>"



section \<open>Argument validation of \<open>tryDecrypt\<close>\<close>

lemma decryptExpectedFlags_iff:
  "decryptExpectedFlags arg \<longleftrightarrow> arg = ''-d'' \<or> arg = ''-i'' \<or> arg = ''-o''"
  by (simp add: decryptExpectedFlags_def)

lemma decryptArgsLoop_args:
  "decryptArgsLoop 0 [''-d'', ''-i'', keyPath, ''-o'', output, input] =
     (if \<not> decryptExpectedFlags keyPath
      then Some (Errorf ''unexpected flag in age arguments: %s'' [Str keyPath])
      else if \<not> decryptExpectedFlags output
      then Some (Errorf ''unexpected flag in age arguments: %s'' [Str output])
      else if input = [] then Some (Errorf ''invalid argument for decryption: empty string'' [])
      else None)"
  by (simp add: numeral_2_eq_2 numeral_3_eq_3 eval_nat_numeral)

lemma tryDecrypt_never_runs_age:
  "\<exists>e. \<forall>env t. tryDecrypt env keyPath output input t = (Some e, t)"
  unfolding tryDecrypt_def Let_def decryptArgsLoop_args
  by (auto simp: decryptExpectedFlags_iff HasSuffix_def)

lemma tryDecrypt_fst: "fst (tryDecrypt env k out inp (t @ [ev])) = fst (tryDecrypt env k out inp [])"
  unfolding tryDecrypt_def Let_def by (simp split: option.splits)

lemma tryDecrypt_snd:
  "\<exists>ex. snd (tryDecrypt env k out inp t) = t @ ex \<and> attemptedKeys ex = []"
  unfolding tryDecrypt_def Let_def by (simp add: attemptedKeys_def split: option.splits)

text \<open>
  Claim C8: \<open>tryDecrypt\<close> returns an error, the same for every environment, and leaves the
  trace as it was (so the \<open>age\<close> binary is not run) whenever the key path ends neither in
  \<open>id_rsa\<close> nor in \<open>id_ed25519\<close>, or the output path ends neither in \<open>.txt\<close> nor in \<open>.out\<close>,
  or one of key path, output and input is empty. A scanned key such as \<open>id_ecdsa\<close> is
  therefore rejected by the wrapper itself.
\<close>

theorem tryDecrypt_rejects_invalid:
  assumes "(\<not> HasSuffix keyPath ''id_rsa'' \<and> \<not> HasSuffix keyPath ''id_ed25519'')
           \<or> (\<not> HasSuffix output ''.txt'' \<and> \<not> HasSuffix output ''.out'')
           \<or> keyPath = [] \<or> output = [] \<or> input = []"
  shows "\<exists>e. \<forall>env t. tryDecrypt env keyPath output input t = (Some e, t)"
  using assms unfolding tryDecrypt_def Let_def decryptArgsLoop_args
  by (auto simp: decryptExpectedFlags_iff HasSuffix_def)

theorem tryDecrypt_rejects_invalid_witness:
  "((\<not> HasSuffix ''/home/u/.ssh/id_ecdsa'' ''id_rsa'' \<and> \<not> HasSuffix ''/home/u/.ssh/id_ecdsa'' ''id_ed25519'')
           \<or> (\<not> HasSuffix ''plain.txt'' ''.txt'' \<and> \<not> HasSuffix ''plain.txt'' ''.out'')
           \<or> ''/home/u/.ssh/id_ecdsa'' = [] \<or> ''plain.txt'' = [] \<or> ''secret.age'' = [])
   \<and> (\<exists>e. \<forall>env t. tryDecrypt env ''/home/u/.ssh/id_ecdsa'' ''plain.txt'' ''secret.age'' t = (Some e, t))"
  using tryDecrypt_rejects_invalid [of "''/home/u/.ssh/id_ecdsa''" "''plain.txt''" "''secret.age''"]
  by (simp add: HasSuffix_def)

text \<open>
  Claim C10, the run that contradicts it: on the key path \<open>/home/u/.ssh/id_rsa\<close>, the
  output \<open>plain.txt\<close> and the input \<open>secret.age\<close>, all three valid, \<open>tryDecrypt\<close> returns
  the error "unexpected flag in age arguments" for the key path, which stands at index 2
  of \<open>ageArgs\<close>, and does not run \<open>age\<close>.
\<close>

theorem tryDecrypt_unexpected_flag_on_valid_key:
  "tryDecrypt env ''/home/u/.ssh/id_rsa'' ''plain.txt'' ''secret.age'' t =
     (Some (Errorf ''unexpected flag in age arguments: %s'' [Str ''/home/u/.ssh/id_rsa'']), t)"
  unfolding tryDecrypt_def Let_def decryptArgsLoop_args
  by (simp add: decryptExpectedFlags_iff)

section \<open>\<open>tryAllKeys\<close>\<close>

lemma tryAllKeys_run:
  "\<exists>new. tryAllKeys env keys input output triedKeys t =
     (list_ex (\<lambda>k. \<not> decryptFails env output input k) keys,
      triedKeys @ takeWhile (decryptFails env output input) keys
                @ take 1 (dropWhile (decryptFails env output input) keys),
      t @ new)
    \<and> attemptedKeys new = takeWhile (decryptFails env output input) keys
                @ take 1 (dropWhile (decryptFails env output input) keys)"
proof (induction keys arbitrary: triedKeys t)
  case Nil
  show ?case by (simp add: attemptedKeys_def)
next
  case (Cons k keys)
  let ?ev = "Log InfoLevel [(''input'', input), (''output'', output), (''sshKey'', k)]
                      None ''Trying decryption with SSH key'' []"
  let ?t1 = "t @ [?ev]"
  obtain err t2 where td: "tryDecrypt env k output input ?t1 = (err, t2)"
    by (cases "tryDecrypt env k output input ?t1") auto
  have err: "err = fst (tryDecrypt env k output input [])"
    using td tryDecrypt_fst [of env k "output" "input" t ?ev] by simp
  obtain ex where ex: "t2 = ?t1 @ ex" "attemptedKeys ex = []"
    using td tryDecrypt_snd [of env k "output" "input" ?t1] by auto
  have ev: "attemptedKeys [?ev] = [k]" by (simp add: attemptedKeys_def)
  show ?case
  proof (cases err)
    case None
    then have "\<not> decryptFails env output input k" using err by simp
    moreover have "tryAllKeys env (k # keys) input output triedKeys t =
        (True, triedKeys @ [k], t @ ([?ev] @ ex @ [Log InfoLevel [] None ''Decryption successful'' []]))"
      using td None ex by simp
    moreover have "attemptedKeys ([?ev] @ ex @ [Log InfoLevel [] None ''Decryption successful'' []]) = [k]"
      using ex(2) ev by (simp add: attemptedKeys_def)
    ultimately show ?thesis by auto
  next
    case (Some e)
    then have f: "decryptFails env output input k" using err by simp
    let ?w = "Log WarnLevel [] (Some e) ''Decryption failed with key %s'' [Str k]"
    have step: "tryAllKeys env (k # keys) input output triedKeys t =
        tryAllKeys env keys input output (triedKeys @ [k]) (t2 @ [?w])"
      using td Some by simp
    from Cons.IH [of "triedKeys @ [k]" "t2 @ [?w]"] obtain new where
      new: "tryAllKeys env keys input output (triedKeys @ [k]) (t2 @ [?w]) =
        (list_ex (\<lambda>k. \<not> decryptFails env output input k) keys,
         (triedKeys @ [k]) @ takeWhile (decryptFails env output input) keys
                @ take 1 (dropWhile (decryptFails env output input) keys),
         (t2 @ [?w]) @ new)"
       "attemptedKeys new = takeWhile (decryptFails env output input) keys
                @ take 1 (dropWhile (decryptFails env output input) keys)"
      by blast
    have "attemptedKeys ([?ev] @ ex @ [?w] @ new) = k # attemptedKeys new"
      using ex(2) by (simp add: attemptedKeys_def)
    moreover have "(t2 @ [?w]) @ new = t @ ([?ev] @ ex @ [?w] @ new)"
      using ex(1) by simp
    ultimately show ?thesis using step new f by auto
  qed
qed



section \<open>The decrypt command: key resolution and reporting\<close>

lemma Decrypt_selected:
  assumes "input \<noteq> []" "output \<noteq> []" "Stat env input = Inr info"
    and "selectSSHKey sshKeyFlag cfg = k" "k \<noteq> []"
  shows "\<exists>new. Decrypt env cfg input output sshKeyFlag t =
           (if decryptFails env output input k then Some (triedKeysError [k]) else None, t @ new)
         \<and> attemptedKeys new = [k]"
proof -
  let ?ev = "Log InfoLevel [(''input'', input), (''output'', output), (''sshKey'', k)]
               None ''Trying decryption with provided SSH key'' []"
  obtain err t2 where td: "tryDecrypt env k output input (t @ [?ev]) = (err, t2)"
    by (cases "tryDecrypt env k output input (t @ [?ev])") auto
  have err: "err = fst (tryDecrypt env k output input [])"
    using td tryDecrypt_fst [of env k "output" "input" t ?ev] by simp
  obtain ex where ex: "t2 = (t @ [?ev]) @ ex" "attemptedKeys ex = []"
    using td tryDecrypt_snd [of env k "output" "input" "t @ [?ev]"] by auto
  show ?thesis
  proof (cases err)
    case None
    have "Decrypt env cfg input output sshKeyFlag t =
            (None, t @ ([?ev] @ ex @ [Log InfoLevel [] None ''Decryption successful'' []]))"
      using assms td None ex(1) by (simp add: Decrypt_def)
    moreover have "attemptedKeys ([?ev] @ ex @ [Log InfoLevel [] None ''Decryption successful'' []]) = [k]"
      using ex(2) by (simp add: attemptedKeys_def)
    ultimately show ?thesis using None err by auto
  next
    case (Some e)
    let ?w = "Log WarnLevel [] (Some e) ''Decryption failed with provided SSH key'' []"
    have "Decrypt env cfg input output sshKeyFlag t = (Some (triedKeysError [k]), t @ ([?ev] @ ex @ [?w]))"
      using assms td Some ex(1) by (simp add: Decrypt_def triedKeysError_def)
    moreover have "attemptedKeys ([?ev] @ ex @ [?w]) = [k]"
      using ex(2) by (simp add: attemptedKeys_def)
    ultimately show ?thesis using Some err by auto
  qed
qed

lemma Decrypt_scanned:
  assumes "input \<noteq> []" "output \<noteq> []" "Stat env input = Inr info"
    and "selectSSHKey sshKeyFlag cfg = []" "ScanSSHPrivateKeys env = Inr keys"
  shows "\<exists>new. Decrypt env cfg input output sshKeyFlag t =
           (if list_ex (\<lambda>k. \<not> decryptFails env output input k) keys then None
            else Some (triedKeysError (takeWhile (decryptFails env output input) keys
                         @ take 1 (dropWhile (decryptFails env output input) keys))),
            t @ new)
         \<and> attemptedKeys new = takeWhile (decryptFails env output input) keys
                         @ take 1 (dropWhile (decryptFails env output input) keys)"
proof -
  from tryAllKeys_run [of env keys "input" "output" "[]" t] obtain new where
    run: "tryAllKeys env keys input output [] t =
       (list_ex (\<lambda>k. \<not> decryptFails env output input k) keys,
        [] @ takeWhile (decryptFails env output input) keys
                @ take 1 (dropWhile (decryptFails env output input) keys),
        t @ new)"
     and att: "attemptedKeys new = takeWhile (decryptFails env output input) keys
                @ take 1 (dropWhile (decryptFails env output input) keys)"
    by blast
  have "Decrypt env cfg input output sshKeyFlag t =
           (if list_ex (\<lambda>k. \<not> decryptFails env output input k) keys then None
            else Some (triedKeysError (takeWhile (decryptFails env output input) keys
                         @ take 1 (dropWhile (decryptFails env output input) keys))),
            t @ new)"
    using assms run by (simp add: Decrypt_def triedKeysError_def)
  then show ?thesis using att by blast
qed

lemma Decrypt_scan_error:
  assumes "input \<noteq> []" "output \<noteq> []" "Stat env input = Inr info"
    and "selectSSHKey sshKeyFlag cfg = []" "ScanSSHPrivateKeys env = Inl err"
  shows "Decrypt env cfg input output sshKeyFlag t =
           (Some (Wrapf ''could not scan ~/.ssh for private keys: %w'' err), t)"
  using assms by (simp add: Decrypt_def)

text \<open>
  Claim C1: on a non-empty input and output and an existing input file, the keys that
  \<open>Decrypt\<close> attempts are: the flag \<open>--ssh-key\<close> alone when it is non-empty; otherwise the
  configured \<open>SSHKeyPath\<close> alone when it is non-empty; and only when both are empty the
  scanned keys, in list order up to the first success.
\<close>

theorem Decrypt_key_priority:
  assumes "input \<noteq> []" "output \<noteq> []" "Stat env input = Inr info"
  shows "\<exists>new. snd (Decrypt env cfg input output sshKeyFlag t) = t @ new \<and>
      (sshKeyFlag \<noteq> [] \<longrightarrow> attemptedKeys new = [sshKeyFlag]) \<and>
      (sshKeyFlag = [] \<and> SSHKeyPath cfg \<noteq> [] \<longrightarrow> attemptedKeys new = [SSHKeyPath cfg]) \<and>
      (sshKeyFlag = [] \<and> SSHKeyPath cfg = [] \<longrightarrow>
         (case ScanSSHPrivateKeys env of
            Inl err \<Rightarrow> attemptedKeys new = []
          | Inr keys \<Rightarrow> attemptedKeys new = takeWhile (decryptFails env output input) keys
                            @ take 1 (dropWhile (decryptFails env output input) keys)))"
proof (cases "selectSSHKey sshKeyFlag cfg = []")
  case False
  from Decrypt_selected [OF assms refl False, where t = t] obtain new where
    "snd (Decrypt env cfg input output sshKeyFlag t) = t @ new"
    "attemptedKeys new = [selectSSHKey sshKeyFlag cfg]"
    by force
  then show ?thesis using False by (auto simp: selectSSHKey_def split: if_splits)
next
  case True
  then have both: "sshKeyFlag = []" "SSHKeyPath cfg = []"
    by (auto simp: selectSSHKey_def split: if_splits)
  show ?thesis
  proof (cases "ScanSSHPrivateKeys env")
    case (Inl err)
    have "snd (Decrypt env cfg input output sshKeyFlag t) = t @ []"
      using Decrypt_scan_error [OF assms True Inl, where t = t] by simp
    then show ?thesis using both Inl by (auto simp: attemptedKeys_def)
  next
    case (Inr keys)
    from Decrypt_scanned [OF assms True Inr, where t = t] obtain new where
      "snd (Decrypt env cfg input output sshKeyFlag t) = t @ new"
      "attemptedKeys new = takeWhile (decryptFails env output input) keys
                            @ take 1 (dropWhile (decryptFails env output input) keys)"
      by force
    then show ?thesis using both Inr by auto
  qed
qed


lemma demo_scan:
  "ScanSSHPrivateKeys demo_env = Inr [''/home/u/.ssh/id_ecdsa'', ''/home/u/.ssh/id_ed25519'']"
  by (simp add: ScanSSHPrivateKeys_def demo_env_def HasPrefix_def HasSuffix_def)

lemma demo_fails: "decryptFails demo_env ''plain.txt'' ''secret.age'' k"
  using tryDecrypt_never_runs_age [of k "''plain.txt''" "''secret.age''"] by auto

theorem Decrypt_key_priority_witness:
  "''secret.age'' \<noteq> [] \<and> ''plain.txt'' \<noteq> [] \<and> Stat demo_env ''secret.age'' = Inr \<lparr>Mode = 0x1A4\<rparr>
   \<and> attemptedKeys (snd (Decrypt demo_env demo_cfg ''secret.age'' ''plain.txt'' ''/k/id_ed25519'' []))
        = [''/k/id_ed25519'']
   \<and> attemptedKeys (snd (Decrypt demo_env demo_cfg ''secret.age'' ''plain.txt'' [] []))
        = [''/home/u/.ssh/id_rsa'']
   \<and> attemptedKeys (snd (Decrypt demo_env (demo_cfg\<lparr>SSHKeyPath := []\<rparr>) ''secret.age'' ''plain.txt'' [] []))
        = [''/home/u/.ssh/id_ecdsa'', ''/home/u/.ssh/id_ed25519'']"
proof -
  have st: "Stat demo_env ''secret.age'' = Inr \<lparr>Mode = 0x1A4\<rparr>"
    by (simp add: demo_env_def)
  have a: "attemptedKeys (snd (Decrypt demo_env demo_cfg ''secret.age'' ''plain.txt'' ''/k/id_ed25519'' []))
        = [''/k/id_ed25519'']"
    using Decrypt_key_priority [OF _ _ st, of "''plain.txt''" demo_cfg "''/k/id_ed25519''" "[]"]
    by auto
  have b: "attemptedKeys (snd (Decrypt demo_env demo_cfg ''secret.age'' ''plain.txt'' [] []))
        = [''/home/u/.ssh/id_rsa'']"
    using Decrypt_key_priority [OF _ _ st, of "''plain.txt''" demo_cfg "[]" "[]"]
    by (auto simp: demo_cfg_def)
  have c: "attemptedKeys (snd (Decrypt demo_env (demo_cfg\<lparr>SSHKeyPath := []\<rparr>) ''secret.age'' ''plain.txt'' [] []))
        = [''/home/u/.ssh/id_ecdsa'', ''/home/u/.ssh/id_ed25519'']"
    using Decrypt_key_priority [OF _ _ st, of "''plain.txt''" "demo_cfg\<lparr>SSHKeyPath := []\<rparr>" "[]" "[]"]
    by (auto simp: demo_scan demo_fails)
  show ?thesis using st a b c by simp
qed



lemma tryDecrypt_ReadDir: "tryDecrypt (env\<lparr>ReadDir := rd\<rparr>) k out inp t = tryDecrypt env k out inp t"
  by (simp add: tryDecrypt_def Let_def)

text \<open>
  Claim C4, as amended: when a key is selected (by flag or configuration) and decryption
  with it fails, \<open>Decrypt\<close> reports the failure naming that key alone, attempts no other
  key, and its result does not depend on the content of the SSH key directory. The scanned
  keys are tried one after the other, up to the first success, only when no key is selected.
\<close>

theorem Decrypt_selected_key_only:
  assumes "input \<noteq> []" "output \<noteq> []" "Stat env input = Inr info"
  shows "(selectSSHKey sshKeyFlag cfg \<noteq> [] \<and>
          decryptFails env output input (selectSSHKey sshKeyFlag cfg) \<longrightarrow>
            fst (Decrypt env cfg input output sshKeyFlag t) =
              Some (triedKeysError [selectSSHKey sshKeyFlag cfg])
            \<and> (\<exists>new. snd (Decrypt env cfg input output sshKeyFlag t) = t @ new
                  \<and> attemptedKeys new = [selectSSHKey sshKeyFlag cfg])
            \<and> (\<forall>rd. Decrypt (env\<lparr>ReadDir := rd\<rparr>) cfg input output sshKeyFlag t
                     = Decrypt env cfg input output sshKeyFlag t))
       \<and> (selectSSHKey sshKeyFlag cfg = [] \<longrightarrow>
            (\<forall>keys. ScanSSHPrivateKeys env = Inr keys \<longrightarrow>
               (\<exists>new. snd (Decrypt env cfg input output sshKeyFlag t) = t @ new
                  \<and> attemptedKeys new = takeWhile (decryptFails env output input) keys
                       @ take 1 (dropWhile (decryptFails env output input) keys))))"
proof (cases "selectSSHKey sshKeyFlag cfg = []")
  case False
  have indep: "Decrypt (env\<lparr>ReadDir := rd\<rparr>) cfg input output sshKeyFlag t
                 = Decrypt env cfg input output sshKeyFlag t" for rd
    using False assms(3) by (simp add: Decrypt_def tryDecrypt_ReadDir Let_def)
  from Decrypt_selected [OF assms refl False, where t = t] obtain new where
    "Decrypt env cfg input output sshKeyFlag t =
       (if decryptFails env output input (selectSSHKey sshKeyFlag cfg)
        then Some (triedKeysError [selectSSHKey sshKeyFlag cfg]) else None, t @ new)"
    "attemptedKeys new = [selectSSHKey sshKeyFlag cfg]"
    by blast
  then show ?thesis using False indep by auto
next
  case True
  show ?thesis using True Decrypt_scanned [OF assms True, where t = t] by force
qed

theorem Decrypt_selected_key_only_witness:
  "''secret.age'' \<noteq> [] \<and> ''plain.txt'' \<noteq> [] \<and> Stat demo_env ''secret.age'' = Inr \<lparr>Mode = 0x1A4\<rparr>
   \<and> selectSSHKey [] demo_cfg \<noteq> []
   \<and> decryptFails demo_env ''plain.txt'' ''secret.age'' (selectSSHKey [] demo_cfg)
   \<and> fst (Decrypt demo_env demo_cfg ''secret.age'' ''plain.txt'' [] []) =
        Some (triedKeysError [''/home/u/.ssh/id_rsa''])"
proof -
  have st: "Stat demo_env ''secret.age'' = Inr \<lparr>Mode = 0x1A4\<rparr>"
    by (simp add: demo_env_def)
  have sel: "selectSSHKey [] demo_cfg = ''/home/u/.ssh/id_rsa''"
    by (simp add: selectSSHKey_def demo_cfg_def)
  show ?thesis
    using st Decrypt_selected_key_only [OF _ _ st, of "''plain.txt''" "[]" demo_cfg "[]"]
    by (simp add: sel demo_fails)
qed

text \<open>
  Claim C4 as stated fails: with the flag \<open>/k/id_rsa\<close>, whose decryption fails, and two
  candidate key files in the SSH key directory, \<open>Decrypt\<close> reports the failure after the
  single attempt with the flag's key.
\<close>

theorem Decrypt_fallback_counterexample:
  "decryptFails demo_env ''plain.txt'' ''secret.age'' ''/k/id_rsa''
   \<and> ScanSSHPrivateKeys demo_env = Inr [''/home/u/.ssh/id_ecdsa'', ''/home/u/.ssh/id_ed25519'']
   \<and> Decrypt demo_env demo_cfg ''secret.age'' ''plain.txt'' ''/k/id_rsa'' [] =
       (Some (triedKeysError [''/k/id_rsa'']),
        [Log InfoLevel [(''input'', ''secret.age''), (''output'', ''plain.txt''), (''sshKey'', ''/k/id_rsa'')]
           None ''Trying decryption with provided SSH key'' [],
         Log WarnLevel [] (Some (Errorf ''unexpected flag in age arguments: %s'' [Str ''/k/id_rsa'']))
           ''Decryption failed with provided SSH key'' []])"
proof -
  have "Decrypt demo_env demo_cfg ''secret.age'' ''plain.txt'' ''/k/id_rsa'' [] =
       (Some (triedKeysError [''/k/id_rsa'']),
        [Log InfoLevel [(''input'', ''secret.age''), (''output'', ''plain.txt''), (''sshKey'', ''/k/id_rsa'')]
           None ''Trying decryption with provided SSH key'' [],
         Log WarnLevel [] (Some (Errorf ''unexpected flag in age arguments: %s'' [Str ''/k/id_rsa'']))
           ''Decryption failed with provided SSH key'' []])"
    by (simp add: Decrypt_def selectSSHKey_def demo_env_def tryDecrypt_def decryptArgsLoop_args
          decryptExpectedFlags_iff triedKeysError_def Let_def)
  then show ?thesis using demo_scan demo_fails [of "''/k/id_rsa''"] by simp
qed

section \<open>\<open>buildAgeArgs\<close> and \<open>ScanSSHPrivateKeys\<close>\<close>

lemma encryptExpectedFlags_iff: "encryptExpectedFlags arg \<longleftrightarrow> arg = ''-o'' \<or> arg = ''-r''"
  by (simp add: encryptExpectedFlags_def)

lemma appendRecipients_eq:
  "appendRecipients ageArgs rs = ageArgs @ concat (map (\<lambda>r. [''-r'', r]) rs)"
  by (induction rs arbitrary: ageArgs) auto

lemma encryptArgsLoop_recipients:
  "even i \<Longrightarrow> n = i + 2 * length rs + 1 \<Longrightarrow>
   encryptArgsLoop n i (concat (map (\<lambda>r. [''-r'', r]) rs) @ [input]) =
     (if [] \<in> set rs \<or> input = []
      then Some (Errorf ''invalid argument for encryption: empty string'' [])
      else None)"
proof (induction rs arbitrary: i)
  case Nil
  then show ?case by (simp add: even_iff_mod_2_eq_zero)
next
  case (Cons r rs)
  have "even (Suc (Suc i))" using Cons.prems(1) by simp
  moreover have "n = Suc (Suc i) + 2 * length rs + 1" using Cons.prems(2) by simp
  ultimately have IH: "encryptArgsLoop n (Suc (Suc i)) (concat (map (\<lambda>r. [''-r'', r]) rs) @ [input]) =
     (if [] \<in> set rs \<or> input = []
      then Some (Errorf ''invalid argument for encryption: empty string'' [])
      else None)"
    by (rule Cons.IH)
  have i: "i mod 2 = 0" "Suc i mod 2 \<noteq> 0" using Cons.prems(1) by (auto simp: even_iff_mod_2_eq_zero mod_Suc)
  show ?case using i Cons.prems(2) IH by (auto simp: encryptExpectedFlags_iff)
qed

lemma buildAgeArgs_eq:
  "buildAgeArgs output input recipients =
     (if output = [] \<or> [] \<in> set recipients \<or> input = []
      then Inl (Errorf ''invalid argument for encryption: empty string'' [])
      else if \<not> HasSuffix output ''.txt'' \<and> \<not> HasSuffix output ''.out''
      then Inl (Errorf ''invalid output file for encryption: %s'' [Str output])
      else Inr ([''-o'', output] @ concat (map (\<lambda>r. [''-r'', r]) recipients) @ [input]))"
proof -
  have tl: "encryptArgsLoop (2 + 2 * length recipients + 1) 2
              (concat (map (\<lambda>r. [''-r'', r]) recipients) @ [input]) =
     (if [] \<in> set recipients \<or> input = []
      then Some (Errorf ''invalid argument for encryption: empty string'' [])
      else None)"
    by (rule encryptArgsLoop_recipients) simp_all
  have len: "length (concat (map (\<lambda>r. [''-r'', r]) recipients)) = 2 * length recipients"
    by (induction recipients) auto
  let ?T = "concat (map (\<lambda>r. [''-r'', r]) recipients) @ [input]"
  let ?E = "Errorf ''invalid argument for encryption: empty string'' []"
  have "encryptArgsLoop (length ([''-o'', output] @ ?T)) 0 ([''-o'', output] @ ?T) =
          encryptArgsLoop (2 + 2 * length recipients + 1) 0 (''-o'' # output # ?T)"
    by (simp add: len)
  also have "\<dots> = (if output = [] then Some ?E
                   else encryptArgsLoop (2 + 2 * length recipients + 1) 2 ?T)"
    by (simp add: encryptExpectedFlags_iff numeral_2_eq_2)
  also have "\<dots> = (if output = [] then Some ?E
                   else if [] \<in> set recipients \<or> input = [] then Some ?E else None)"
    by (simp only: tl)
  finally have "encryptArgsLoop (length ([''-o'', output] @ concat (map (\<lambda>r. [''-r'', r]) recipients) @ [input])) 0
          ([''-o'', output] @ concat (map (\<lambda>r. [''-r'', r]) recipients) @ [input]) =
     (if output = [] \<or> [] \<in> set recipients \<or> input = []
      then Some (Errorf ''invalid argument for encryption: empty string'' [])
      else None)"
    by (simp split: if_splits)
  then show ?thesis
    by (simp add: buildAgeArgs_def Let_def appendRecipients_eq)
qed

lemma buildAgeArgs_no_unexpected_flag:
  "buildAgeArgs output input recipients \<noteq> Inl (Errorf ''unexpected flag in age arguments: %s'' args)"
  by (simp add: buildAgeArgs_eq)

text \<open>
  Claim C7: \<open>buildAgeArgs\<close> returns an error when the output ends neither in \<open>.txt\<close> nor in
  \<open>.out\<close>, or when the output, the input or one of the recipients is empty; otherwise it
  returns the list \<open>-o output -r r1 ... -r rn input\<close>, the recipients in the given order.
\<close>

theorem buildAgeArgs_validates:
  "((\<not> HasSuffix output ''.txt'' \<and> \<not> HasSuffix output ''.out'')
      \<or> output = [] \<or> input = [] \<or> [] \<in> set recipients
     \<longrightarrow> (\<exists>e. buildAgeArgs output input recipients = Inl e))
   \<and> (\<not> ((\<not> HasSuffix output ''.txt'' \<and> \<not> HasSuffix output ''.out'')
          \<or> output = [] \<or> input = [] \<or> [] \<in> set recipients)
     \<longrightarrow> buildAgeArgs output input recipients =
           Inr ([''-o'', output] @ concat (map (\<lambda>r. [''-r'', r]) recipients) @ [input]))"
  by (auto simp: buildAgeArgs_eq)

theorem buildAgeArgs_validates_witness:
  "buildAgeArgs ''secret.out'' ''plain.txt'' [''key1.pub'', ''ssh-ed25519 AAAA''] =
     Inr [''-o'', ''secret.out'', ''-r'', ''key1.pub'', ''-r'', ''ssh-ed25519 AAAA'', ''plain.txt'']
   \<and> (\<exists>e. buildAgeArgs ''secret.age'' ''plain.txt'' [''key1.pub''] = Inl e)
   \<and> (\<exists>e. buildAgeArgs ''secret.out'' ''plain.txt'' [''key1.pub'', []] = Inl e)"
  using buildAgeArgs_validates [of "''secret.out''" "''plain.txt''" "[''key1.pub'', ''ssh-ed25519 AAAA'']"]
        buildAgeArgs_validates [of "''secret.age''" "''plain.txt''" "[''key1.pub'']"]
        buildAgeArgs_validates [of "''secret.out''" "''plain.txt''" "[''key1.pub'', []]"]
  by (simp add: HasSuffix_def)

lemma scanEntries_eq:
  "scanEntries env sshDir files keys =
     keys @ map (\<lambda>f. filepath_Join env [sshDir, Name f])
              (filter (\<lambda>f. \<not> IsDir f \<and> HasPrefix (Name f) ''id_'' \<and> \<not> HasSuffix (Name f) ''.pub'') files)"
  by (induction files arbitrary: keys) (auto simp: Let_def)

text \<open>
  Claim C6: when the SSH key directory is read, \<open>ScanSSHPrivateKeys\<close> returns, in the order
  of the listing, the entries that are not directories and whose name starts with \<open>id_\<close>
  and does not end with \<open>.pub\<close>, each joined to the directory path; it returns an error
  exactly when reading the directory does, and then that error.
\<close>

theorem ScanSSHPrivateKeys_filters:
  "(\<forall>files. ReadDir env (filepath_Join env [Getenv env ''HOME'', ''.ssh'']) = Inr files \<longrightarrow>
      ScanSSHPrivateKeys env =
        Inr (map (\<lambda>f. filepath_Join env [filepath_Join env [Getenv env ''HOME'', ''.ssh''], Name f])
               (filter (\<lambda>f. \<not> IsDir f \<and> HasPrefix (Name f) ''id_'' \<and> \<not> HasSuffix (Name f) ''.pub'')
                  files)))
   \<and> (\<forall>err. ScanSSHPrivateKeys env = Inl err \<longleftrightarrow>
              ReadDir env (filepath_Join env [Getenv env ''HOME'', ''.ssh'']) = Inl err)"
  by (auto simp: ScanSSHPrivateKeys_def Let_def scanEntries_eq split: sum.splits)

theorem ScanSSHPrivateKeys_filters_witness:
  "ReadDir demo_env (filepath_Join demo_env [Getenv demo_env ''HOME'', ''.ssh'']) =
     Inr [\<lparr>Name = ''config'', IsDir = False\<rparr>,
          \<lparr>Name = ''id_ecdsa'', IsDir = False\<rparr>,
          \<lparr>Name = ''id_ed25519'', IsDir = False\<rparr>,
          \<lparr>Name = ''id_ed25519.pub'', IsDir = False\<rparr>,
          \<lparr>Name = ''id_old'', IsDir = True\<rparr>]
   \<and> ScanSSHPrivateKeys demo_env = Inr [''/home/u/.ssh/id_ecdsa'', ''/home/u/.ssh/id_ed25519'']"
proof -
  have rd: "ReadDir demo_env (filepath_Join demo_env [Getenv demo_env ''HOME'', ''.ssh'']) =
     Inr [\<lparr>Name = ''config'', IsDir = False\<rparr>,
          \<lparr>Name = ''id_ecdsa'', IsDir = False\<rparr>,
          \<lparr>Name = ''id_ed25519'', IsDir = False\<rparr>,
          \<lparr>Name = ''id_ed25519.pub'', IsDir = False\<rparr>,
          \<lparr>Name = ''id_old'', IsDir = True\<rparr>]"
    by (simp add: demo_env_def)
  have jn: "filepath_Join demo_env = joinSlash" "Getenv demo_env ''HOME'' = ''/home/u''"
    by (simp_all add: demo_env_def)
  show ?thesis
    using rd ScanSSHPrivateKeys_filters [of demo_env]
    by (simp add: jn HasPrefix_def HasSuffix_def)
qed

section \<open>Permissions of the configuration file\<close>




section \<open>\<open>collectRecipients\<close>\<close>










end
